theory Spec2Isabelle
  imports Complex_Main "HOL-Library.AList" "HOL-Library.Sublist" "HOL-Library.Log_Nat"
begin

section \<open>Python values\<close>

text \<open>
  The values that \<^verbatim>\<open>pd.read_excel\<close> hands to \<^verbatim>\<open>CNPJProcessor.run\<close> in a cell:
  a string, an integer, or the not-a-number marker of an empty cell. (Cells holding other
  floating-point numbers or dates are not part of this model.)
\<close>

datatype xlval = XStr string | XInt int | XNaN

text \<open>
  A parsed JSON document, as \<^verbatim>\<open>response.json()\<close> and \<^verbatim>\<open>json.load\<close> return it.
  Python's \<^verbatim>\<open>None\<close> is \<open>JNull\<close>: both the parsed \<^verbatim>\<open>null\<close> and the value that
  \<^verbatim>\<open>CNPJCache.get\<close> and \<^verbatim>\<open>fetch_cnpj_data\<close> return for "no data". Numbers are
  taken to be integers, and an object keeps its members in the order of the document.
\<close>

datatype json =
    JNull
  | JBool bool
  | JNum int
  | JStr string
  | JArr "json list"
  | JObj "(string \<times> json) list"

datatype request_exception = ConnectionError | HTTPError nat | InvalidJSON

datatype exn =
    KeyError string
  | TypeError
  | UnboundLocalError string
  | ZeroDivisionError
  | FileNotFoundError
  | JSONDecodeError
  | OSError
  | RequestException request_exception

text \<open>Truth value of a Python object, as \<^verbatim>\<open>if data:\<close> and \<^verbatim>\<open>if not data:\<close> test it.\<close>

fun truthy :: "json \<Rightarrow> bool" where
  "truthy JNull = False"
| "truthy (JBool b) = b"
| "truthy (JNum n) = (n \<noteq> 0)"
| "truthy (JStr s) = (s \<noteq> [])"
| "truthy (JArr xs) = (xs \<noteq> [])"
| "truthy (JObj kvs) = (kvs \<noteq> [])"

text \<open>\<^verbatim>\<open>key in data\<close> for a string \<^verbatim>\<open>key\<close>: key membership in a dict, element
  membership in a list, substring test in a string, \<^verbatim>\<open>TypeError\<close> otherwise.\<close>

fun py_in :: "string \<Rightarrow> json \<Rightarrow> exn + bool" where
  "py_in k (JObj kvs) = Inr (k \<in> set (map fst kvs))"
| "py_in k (JArr xs) = Inr (JStr k \<in> set xs)"
| "py_in k (JStr s) = Inr (sublist k s)"
| "py_in k JNull = Inl TypeError"
| "py_in k (JBool b) = Inl TypeError"
| "py_in k (JNum n) = Inl TypeError"

text \<open>\<^verbatim>\<open>data[key]\<close> for a string \<^verbatim>\<open>key\<close>: the dict's value, \<^verbatim>\<open>KeyError\<close> for
  a key the dict lacks, \<^verbatim>\<open>TypeError\<close> for every other kind of object.\<close>

fun py_getitem :: "json \<Rightarrow> string \<Rightarrow> exn + json" where
  "py_getitem (JObj kvs) k = (case map_of kvs k of Some v \<Rightarrow> Inr v | None \<Rightarrow> Inl (KeyError k))"
| "py_getitem (JArr xs) k = Inl TypeError"
| "py_getitem (JStr s) k = Inl TypeError"
| "py_getitem JNull k = Inl TypeError"
| "py_getitem (JBool b) k = Inl TypeError"
| "py_getitem (JNum n) k = Inl TypeError"

section \<open>Identifier canonicalization (line 59)\<close>

text \<open>Decimal digits of a natural number, most significant first, as \<^verbatim>\<open>str\<close> prints them.\<close>

fun digits_of :: "nat \<Rightarrow> string" where
  "digits_of n =
     (if n < 10 then [''0123456789'' ! n]
      else digits_of (n div 10) @ [''0123456789'' ! (n mod 10)])"

declare digits_of.simps [simp del]

definition str_int :: "int \<Rightarrow> string" where
  "str_int i = (if i < 0 then CHR ''-'' # digits_of (nat (- i)) else digits_of (nat i))"

text \<open>\<^verbatim>\<open>str(row['CNPJ'])\<close>: a string is itself, an integer is its decimal numeral,
  the empty cell prints as \<^verbatim>\<open>nan\<close>.\<close>

fun py_str :: "xlval \<Rightarrow> string" where
  "py_str (XStr s) = s"
| "py_str (XInt i) = str_int i"
| "py_str XNaN = ''nan''"

text \<open>
  \<^verbatim>\<open>str.zfill(width)\<close>: a string of at least \<^verbatim>\<open>width\<close> characters is returned
  unchanged; a shorter one is filled with \<^verbatim>\<open>'0'\<close> up to the width, on the left, except
  that a leading sign \<^verbatim>\<open>'+'\<close> or \<^verbatim>\<open>'-'\<close> stays in front of the zeros.
\<close>

definition zfill :: "nat \<Rightarrow> string \<Rightarrow> string" where
  "zfill width s =
     (if length s \<ge> width then s
      else (case s of
              c # cs \<Rightarrow>
                (if c = CHR ''+'' \<or> c = CHR ''-''
                 then c # replicate (width - length s) CHR ''0'' @ cs
                 else replicate (width - length s) CHR ''0'' @ s)
            | [] \<Rightarrow> replicate width CHR ''0''))"

text \<open>\<^verbatim>\<open>str(v).zfill(14)\<close>, for the value \<^verbatim>\<open>v\<close> read from the identifier column.\<close>

definition canonical :: "xlval \<Rightarrow> string" where
  "canonical v = zfill 14 (py_str v)"

section \<open>CNPJCache\<close>

text \<open>
  Time is the naive wall clock of \<^verbatim>\<open>datetime.now()\<close>, counted in microseconds (the
  resolution of \<^verbatim>\<open>datetime\<close>); \<^verbatim>\<open>isoformat\<close> and \<^verbatim>\<open>fromisoformat\<close> are inverse to
  each other on such values, so an entry holds the time itself.
\<close>

type_synonym timestamp = int

definition timedelta_days :: "int \<Rightarrow> int" where
  "timedelta_days d = d * 86400000000"

text \<open>\<^verbatim>\<open>self.cache\<close>: a dict from identifier to the pair (payload, recorded-at), in
  insertion order.\<close>

type_synonym cache = "(string \<times> (json \<times> timestamp)) list"

text \<open>
  What opening and parsing the backing file \<^verbatim>\<open>cnpj_cache.json\<close> can meet: no file,
  a file that cannot be opened, text that is not JSON, or a stored snapshot of the dict.
\<close>

datatype cache_file = Missing | Unreadable | NotJSON | Snapshot cache



text \<open>\<^verbatim>\<open>CNPJCache.get(cnpj)\<close> at wall-clock time \<open>now\<close>.\<close>

definition cache_get :: "cache \<Rightarrow> string \<Rightarrow> timestamp \<Rightarrow> json" where
  "cache_get c cnpj now =
     (case map_of c cnpj of
        Some (data, ts) \<Rightarrow> (if now - ts < timedelta_days 30 then data else JNull)
      | None \<Rightarrow> JNull)"

section \<open>The remote lookup (fetch_cnpj_data)\<close>

text \<open>
  What one \<^verbatim>\<open>requests.get(url)\<close> can meet: no response at all (connection refused,
  timeout, ...), or a response with a status code and a body that either parses as JSON
  or does not.
\<close>

datatype http_result = NoResponse | Response nat "json option"

definition url_of :: "string \<Rightarrow> string" where
  "url_of cnpj = ''https://www.receitaws.com.br/v1/cnpj/'' @ cnpj"

definition requests_get :: "http_result \<Rightarrow> exn + (nat \<times> json option)" where
  "requests_get r =
     (case r of
        NoResponse \<Rightarrow> Inl (RequestException ConnectionError)
      | Response status body \<Rightarrow> Inr (status, body))"

text \<open>\<^verbatim>\<open>Response.raise_for_status\<close> raises \<^verbatim>\<open>HTTPError\<close> for the client and server
  error codes, 400 to 599, and for no other status.\<close>

definition raise_for_status :: "nat \<Rightarrow> exn + unit" where
  "raise_for_status status =
     (if 400 \<le> status \<and> status < 600 then Inl (RequestException (HTTPError status))
      else Inr ())"

text \<open>\<^verbatim>\<open>Response.json\<close> raises \<^verbatim>\<open>requests.exceptions.JSONDecodeError\<close>, a
  \<^verbatim>\<open>RequestException\<close>, when the body does not parse.\<close>

definition response_json :: "json option \<Rightarrow> exn + json" where
  "response_json body =
     (case body of None \<Rightarrow> Inl (RequestException InvalidJSON) | Some j \<Rightarrow> Inr j)"

fun is_RequestException :: "exn \<Rightarrow> bool" where
  "is_RequestException (RequestException _) = True"
| "is_RequestException _ = False"

datatype log_entry =
    Info_updated string
  | Warning_no_data string
  | Error_row string exn
  | Error_request string exn
  | Info_saved string
  | Error_fatal exn

text \<open>The \<^verbatim>\<open>try\<close> block of \<^verbatim>\<open>fetch_cnpj_data\<close>.\<close>

definition fetch_try :: "http_result \<Rightarrow> exn + json" where
  "fetch_try r =
     (case requests_get r of
        Inl e \<Rightarrow> Inl e
      | Inr (status, body) \<Rightarrow>
          (case raise_for_status status of
             Inl e \<Rightarrow> Inl e
           | Inr _ \<Rightarrow> response_json body))"

text \<open>\<^verbatim>\<open>fetch_cnpj_data(cnpj)\<close>, given what the network answers for each URL: the value
  returned or the exception raised, and the lines logged.\<close>

definition fetch_cnpj_data :: "(string \<Rightarrow> http_result) \<Rightarrow> string \<Rightarrow> (exn + json) \<times> log_entry list" where
  "fetch_cnpj_data net cnpj =
     (case fetch_try (net (url_of cnpj)) of
        Inr j \<Rightarrow> (Inr j, [])
      | Inl e \<Rightarrow>
          (if is_RequestException e then (Inr JNull, [Error_request cnpj e])
           else (Inl e, [])))"

section \<open>The progress percentage (line 77)\<close>

text \<open>
  \<^verbatim>\<open>int((index + 1) / total_rows * 100)\<close> is computed in binary64 floating point: the
  true quotient of the two integers is rounded to the nearest double, that double times
  100 is rounded again, and \<^verbatim>\<open>int\<close> truncates. A double is modelled by the rational
  number it denotes; rounding keeps 53 significant bits and breaks ties towards the even
  significand. Exponent overflow and subnormal numbers are left out: they would need a
  dataset of more than \<open>2 ^ 1022\<close> rows.
\<close>

text \<open>Round to the nearest integer, ties to the even one.\<close>

definition rne :: "rat \<Rightarrow> int" where
  "rne x =
     (let f = \<lfloor>x\<rfloor>; r = x - of_int f
      in if r < 1 / 2 then f
         else if 1 / 2 < r then f + 1
         else if even f then f else f + 1)"

text \<open>The binary exponent \<open>\<lfloor>log\<^sub>2 x\<rfloor>\<close> of a positive rational.\<close>

definition ilog2 :: "rat \<Rightarrow> int" where
  "ilog2 x = (if 1 \<le> x then bitlen \<lfloor>x\<rfloor> - 1 else - bitlen (\<lceil>1 / x\<rceil> - 1))"

definition round_double :: "rat \<Rightarrow> rat" where
  "round_double x =
     (if x = 0 then 0
      else (let e = ilog2 \<bar>x\<bar> - 52
            in sgn x * of_int (rne (\<bar>x\<bar> * power_int 2 (- e))) * power_int 2 e))"

definition percent :: "nat \<Rightarrow> nat \<Rightarrow> int" where
  "percent index total_rows =
     \<lfloor>round_double (round_double (of_nat (index + 1) / of_nat total_rows) * 100)\<rfloor>"

section \<open>The dataset\<close>

text \<open>
  A \<^verbatim>\<open>DataFrame\<close> with the default integer row labels: its column names and its rows,
  each row holding one cell per column.
\<close>

record 'c dataframe =
  columns :: "string list"
  rows :: "'c list list"

text \<open>A cell of the frame being updated: the value read from the file, or a value written
  from a payload.\<close>

datatype cell = Orig xlval | Upd json

definition read_frame :: "xlval dataframe \<Rightarrow> cell dataframe" where
  "read_frame x = \<lparr>columns = columns x, rows = map (map Orig) (rows x)\<rparr>"

text \<open>Position of the first occurrence of a column name.\<close>

fun get_loc :: "string \<Rightarrow> string list \<Rightarrow> nat" where
  "get_loc k [] = 0"
| "get_loc k (c # cs) = (if c = k then 0 else Suc (get_loc k cs))"

text \<open>
  \<^verbatim>\<open>df.at[index, key] = value\<close>. When the column exists, the cell is overwritten in
  place. When it does not, pandas falls back to \<^verbatim>\<open>df.loc[index, key] = value\<close>, which
  enlarges the frame: a new column \<^verbatim>\<open>key\<close> is appended, empty (NaN) in every other row.
  The same fallback appends a row for a label the frame does not have. Cells are taken to
  hold any Python object; coercion between column dtypes is not modelled.
\<close>

definition add_column :: "cell dataframe \<Rightarrow> string \<Rightarrow> cell dataframe" where
  "add_column d k = \<lparr>columns = columns d @ [k], rows = map (\<lambda>r. r @ [Orig XNaN]) (rows d)\<rparr>"

definition add_row :: "cell dataframe \<Rightarrow> cell dataframe" where
  "add_row d = d\<lparr>rows := rows d @ [map (\<lambda>_. Orig XNaN) (columns d)]\<rparr>"

definition at_set :: "cell dataframe \<Rightarrow> nat \<Rightarrow> string \<Rightarrow> cell \<Rightarrow> cell dataframe" where
  "at_set d index key v =
     (let d1 = (if key \<in> set (columns d) then d else add_column d key);
          d2 = (if index < length (rows d1) then d1 else add_row d1);
          i = (if index < length (rows d1) then index else length (rows d1))
      in d2\<lparr>rows := (rows d2)[i := (rows d2 ! i)[get_loc key (columns d2) := v]]\<rparr>)"

text \<open>Lines 67 to 69: \<^verbatim>\<open>for key in self.fields_to_update: if key in data:
  df.at[index, key] = data[key]\<close>. An exception leaves the loop with the writes made so far.\<close>

fun update_fields :: "nat \<Rightarrow> json \<Rightarrow> string list \<Rightarrow> cell dataframe \<Rightarrow> cell dataframe \<times> exn option" where
  "update_fields index data [] d = (d, None)"
| "update_fields index data (key # keys) d =
     (case py_in key data of
        Inl e \<Rightarrow> (d, Some e)
      | Inr False \<Rightarrow> update_fields index data keys d
      | Inr True \<Rightarrow>
          (case py_getitem data key of
             Inl e \<Rightarrow> (d, Some e)
           | Inr v \<Rightarrow> update_fields index data keys (at_set d index key (Upd v))))"

section \<open>The output path (line 80)\<close>

text \<open>
  \<^verbatim>\<open>str.replace(old, new)\<close>: every occurrence of \<^verbatim>\<open>old\<close>, found from the left and
  not overlapping, is replaced. (An empty \<^verbatim>\<open>old\<close> matches before every character and
  at the end.)
\<close>

function replace_str :: "string \<Rightarrow> string \<Rightarrow> string \<Rightarrow> string" where
  "replace_str old new s =
     (if old = [] then new @ concat (map (\<lambda>c. c # new) s)
      else if prefix old s then new @ replace_str old new (drop (length old) s)
      else (case s of [] \<Rightarrow> [] | c # cs \<Rightarrow> c # replace_str old new cs))"
  by pat_completeness auto
termination
  by (relation "measure (\<lambda>(old, new, s). length s)") (auto simp: prefix_def)

declare replace_str.simps [simp del]

definition output_file :: "string \<Rightarrow> string" where
  "output_file file_path = replace_str ''.xlsx'' ''_atualizado.xlsx'' file_path"

section \<open>CNPJProcessor\<close>

datatype signal = progress_updated int | process_finished | error_occurred exn

text \<open>
  Everything that \<^verbatim>\<open>run\<close> reads and changes: the frame \<^verbatim>\<open>df\<close>, the dict
  \<^verbatim>\<open>self.cache.cache\<close>, the backing file of the cache, the local variable
  \<^verbatim>\<open>cnpj\<close> (unbound until line 59 has assigned it once), the lines written to the log,
  the signals emitted, the URLs requested and the spreadsheets written.
  The string carried by \<^verbatim>\<open>error_occurred\<close> and the text of the log lines are kept as
  the identifier and the exception they are formatted from.
\<close>

record world =
  df :: "cell dataframe"
  cache :: cache
  disk :: cache_file
  cnpj :: "string option"
  logged :: "log_entry list"
  signals :: "signal list"
  requested :: "string list"
  saved :: "(string \<times> cell dataframe) list"

text \<open>
  What the surroundings answer while one row is processed: the clock read by
  \<^verbatim>\<open>CNPJCache.get\<close>, the network, the clock read by \<^verbatim>\<open>CNPJCache.set\<close>, and whether
  the cache file can be written.
\<close>

record row_env =
  now_get :: timestamp
  net :: "string \<Rightarrow> http_result"
  now_set :: timestamp
  save_ok :: bool

text \<open>The surroundings of a whole run: what \<^verbatim>\<open>pd.read_excel\<close> returns or raises for a
  path, the answers for each row, and whether \<^verbatim>\<open>df.to_excel\<close> can write.\<close>

record env =
  read_excel :: "string \<Rightarrow> exn + xlval dataframe"
  at_row :: "nat \<Rightarrow> row_env"
  to_excel_ok :: bool

text \<open>\<^verbatim>\<open>CNPJProcessor.__init__\<close> builds \<^verbatim>\<open>CNPJCache()\<close>, which loads the backing file.\<close>

definition processor :: "cache_file \<Rightarrow> cache \<Rightarrow> world" where
  "processor f c =
     \<lparr>df = \<lparr>columns = [], rows = []\<rparr>, cache = c, disk = f, cnpj = None,
      logged = [], signals = [], requested = [], saved = []\<rparr>"


text \<open>\<^verbatim>\<open>CNPJCache.set(cnpj, data)\<close>: the entry is put into the dict, then
  \<^verbatim>\<open>save_cache\<close> writes the whole dict to the file; an I/O error propagates.\<close>

definition cache_set :: "row_env \<Rightarrow> string \<Rightarrow> json \<Rightarrow> world \<Rightarrow> world \<times> exn option" where
  "cache_set e c data w =
     (let w1 = w\<lparr>cache := AList.update c (data, now_set e) (cache w)\<rparr>
      in if save_ok e then (w1\<lparr>disk := Snapshot (cache w1)\<rparr>, None)
         else (w1, Some OSError))"

text \<open>Lines 60 to 64: the payload from the cache or, failing that, from the network.\<close>

definition resolve :: "row_env \<Rightarrow> string \<Rightarrow> world \<Rightarrow> world \<times> (exn + json)" where
  "resolve e c w =
     (let data = cache_get (cache w) c (now_get e)
      in if truthy data then (w, Inr data)
         else (case fetch_cnpj_data (net e) c of
                 (r, lines) \<Rightarrow>
                   (let w1 = w\<lparr>logged := logged w @ lines,
                                requested := requested w @ [url_of c]\<rparr>
                    in case r of
                         Inl ex \<Rightarrow> (w1, Inl ex)
                       | Inr fetched \<Rightarrow>
                           (if truthy fetched
                            then (case cache_set e c fetched w1 of
                                    (w2, None) \<Rightarrow> (w2, Inr fetched)
                                  | (w2, Some ex) \<Rightarrow> (w2, Inl ex))
                            else (w1, Inr fetched)))))"

text \<open>Lines 66 to 72.\<close>

definition apply_payload :: "string list \<Rightarrow> nat \<Rightarrow> string \<Rightarrow> json \<Rightarrow> world \<Rightarrow> world \<times> exn option" where
  "apply_payload fields_to_update index c data w =
     (if truthy data
      then (case update_fields index data fields_to_update (df w) of
              (d, None) \<Rightarrow> (w\<lparr>df := d, logged := logged w @ [Info_updated c]\<rparr>, None)
            | (d, Some ex) \<Rightarrow> (w\<lparr>df := d\<rparr>, Some ex))
      else (w\<lparr>logged := logged w @ [Warning_no_data c]\<rparr>, None))"

text \<open>The inner \<^verbatim>\<open>try\<close> block, lines 59 to 72, for the row \<open>row\<close> that
  \<^verbatim>\<open>iterrows\<close> yields with the column names \<open>cols\<close>.\<close>

definition row_try :: "row_env \<Rightarrow> string list \<Rightarrow> string list \<Rightarrow> nat \<Rightarrow> xlval list \<Rightarrow> world \<Rightarrow> world \<times> exn option" where
  "row_try e fields_to_update cols index row w =
     (case map_of (zip cols row) ''CNPJ'' of
        None \<Rightarrow> (w, Some (KeyError ''CNPJ''))
      | Some v \<Rightarrow>
          (let c = canonical v; w1 = w\<lparr>cnpj := Some c\<rparr>
           in case resolve e c w1 of
                (w2, Inl ex) \<Rightarrow> (w2, Some ex)
              | (w2, Inr data) \<Rightarrow> apply_payload fields_to_update index c data w2))"

text \<open>Lines 77 and 78.\<close>

definition emit_progress :: "nat \<Rightarrow> nat \<Rightarrow> world \<Rightarrow> (world \<times> exn) + world" where
  "emit_progress total_rows index w =
     (if total_rows = 0 then Inl (w, ZeroDivisionError)
      else Inr (w\<lparr>signals := signals w @ [progress_updated (percent index total_rows)]\<rparr>))"

text \<open>
  One pass of the loop body, lines 58 to 78. The handler of line 75 formats the local
  variable \<^verbatim>\<open>cnpj\<close>; while that variable is unbound, the handler itself raises
  \<^verbatim>\<open>UnboundLocalError\<close>, which leaves the loop.
\<close>

definition process_row :: "row_env \<Rightarrow> string list \<Rightarrow> string list \<Rightarrow> nat \<Rightarrow> nat \<Rightarrow> xlval list \<Rightarrow> world \<Rightarrow> (world \<times> exn) + world" where
  "process_row e fields_to_update cols total_rows index row w =
     (case row_try e fields_to_update cols index row w of
        (w1, None) \<Rightarrow> emit_progress total_rows index w1
      | (w1, Some ex) \<Rightarrow>
          (case cnpj w1 of
             None \<Rightarrow> Inl (w1, UnboundLocalError ''cnpj'')
           | Some c \<Rightarrow> emit_progress total_rows index (w1\<lparr>logged := logged w1 @ [Error_row c ex]\<rparr>)))"

text \<open>\<^verbatim>\<open>for index, row in df.iterrows()\<close>: the rows and column names are those the frame
  had when the loop started.\<close>

fun iterrows :: "(nat \<Rightarrow> row_env) \<Rightarrow> string list \<Rightarrow> string list \<Rightarrow> nat \<Rightarrow> nat \<Rightarrow> xlval list list \<Rightarrow> world \<Rightarrow> (world \<times> exn) + world" where
  "iterrows es fields_to_update cols total_rows index [] w = Inr w"
| "iterrows es fields_to_update cols total_rows index (row # rest) w =
     (case process_row (es index) fields_to_update cols total_rows index row w of
        Inl x \<Rightarrow> Inl x
      | Inr w1 \<Rightarrow> iterrows es fields_to_update cols total_rows (Suc index) rest w1)"

text \<open>Lines 80 to 83.\<close>

definition write_output :: "env \<Rightarrow> string \<Rightarrow> world \<Rightarrow> (world \<times> exn) + world" where
  "write_output E file_path w =
     (if to_excel_ok E
      then Inr (w\<lparr>saved := saved w @ [(output_file file_path, df w)],
                  logged := logged w @ [Info_saved (output_file file_path)],
                  signals := signals w @ [process_finished]\<rparr>)
      else Inl (w, OSError))"

text \<open>The outer \<^verbatim>\<open>try\<close> block, lines 54 to 83.\<close>

definition run_try :: "env \<Rightarrow> string \<Rightarrow> string list \<Rightarrow> world \<Rightarrow> (world \<times> exn) + world" where
  "run_try E file_path fields_to_update w =
     (case read_excel E file_path of
        Inl ex \<Rightarrow> Inl (w, ex)
      | Inr x \<Rightarrow>
          (case iterrows (at_row E) fields_to_update (columns x) (length (rows x)) 0 (rows x)
                  (w\<lparr>df := read_frame x\<rparr>) of
             Inl failed \<Rightarrow> Inl failed
           | Inr w1 \<Rightarrow> write_output E file_path w1))"

text \<open>\<^verbatim>\<open>CNPJProcessor.run\<close>, with the handler of lines 85 to 88.\<close>

definition run :: "env \<Rightarrow> string \<Rightarrow> string list \<Rightarrow> world \<Rightarrow> world" where
  "run E file_path fields_to_update w =
     (case run_try E file_path fields_to_update w of
        Inr w1 \<Rightarrow> w1
      | Inl (w1, ex) \<Rightarrow>
          w1\<lparr>logged := logged w1 @ [Error_fatal ex], signals := signals w1 @ [error_occurred ex]\<rparr>)"

section \<open>MainWindow: the selection of fields\<close>

text \<open>
  \<^verbatim>\<open>load_fields\<close> makes one check box for each column of the spreadsheet, unchecked;
  the user checks some of them; \<^verbatim>\<open>start_processing\<close> takes the texts of the checked
  boxes and starts no run when there are none.
\<close>

definition load_fields :: "'c dataframe \<Rightarrow> (string \<times> bool) list" where
  "load_fields x = map (\<lambda>field. (field, False)) (columns x)"

definition start_processing :: "(string \<times> bool) list \<Rightarrow> string list option" where
  "start_processing field_checkboxes =
     (let selected_fields = map fst (filter snd field_checkboxes)
      in if selected_fields = [] then None else Some selected_fields)"

section \<open>Sample surroundings\<close>

text \<open>A network, a reader or a clock that gives the same answer whatever it is asked.\<close>

definition always :: "'a \<Rightarrow> 'b \<Rightarrow> 'a" where
  "always r u = r"

text \<open>Surroundings in which reading the spreadsheet gives the frame \<open>x\<close>, every request is
  answered by \<open>r\<close>, every clock reading is \<open>t\<close> and every file can be written.\<close>

definition calm_row :: "http_result \<Rightarrow> timestamp \<Rightarrow> row_env" where
  "calm_row r t = \<lparr>now_get = t, net = always r, now_set = t, save_ok = True\<rparr>"

definition calm :: "xlval dataframe \<Rightarrow> http_result \<Rightarrow> timestamp \<Rightarrow> env" where
  "calm x r t = \<lparr>read_excel = always (Inr x), at_row = always (calm_row r t), to_excel_ok = True\<rparr>"

text \<open>Every row of a frame has one cell per column.\<close>

definition rectangular :: "'c dataframe \<Rightarrow> bool" where
  "rectangular x = (\<forall>row \<in> set (rows x). length row = length (columns x))"

text \<open>Line 55, \<^verbatim>\<open>total_rows = len(df)\<close>: the number of rows of the frame that was read
  (and 0 when reading fails, where the line is not reached).\<close>

definition total_rows :: "env \<Rightarrow> string \<Rightarrow> nat" where
  "total_rows E file_path =
     (case read_excel E file_path of Inl ex \<Rightarrow> 0 | Inr x \<Rightarrow> length (rows x))"

section \<open>Sample surroundings, unfolded\<close>

lemma calm_row_sel:
  "now_get (calm_row r t) = t" "now_set (calm_row r t) = t" "net (calm_row r t) = always r"
  "save_ok (calm_row r t)"
  by (simp_all add: calm_row_def)

lemma processor_sel:
  "cache (processor f c) = c" "disk (processor f c) = f" "requested (processor f c) = []"
  "df (processor f c) = \<lparr>columns = [], rows = []\<rparr>" "cnpj (processor f c) = None"
  "signals (processor f c) = []" "saved (processor f c) = []" "logged (processor f c) = []"
  by (simp_all add: processor_def)

section \<open>Canonicalization\<close>

lemma zfill_length: "length (zfill w s) = max w (length s)"
  by (auto simp: zfill_def split: list.splits)

lemma zfill_subseq: "subseq s (zfill w s)"
  by (auto simp: zfill_def split: list.splits)

text \<open>
  C8, as stated, at the identifier \<^verbatim>\<open>"-1234"\<close>: the zeros are not put on the left of the
  string but after its sign, so the result is not the string left-padded to width 14.
\<close>

theorem canonical_counterexample:
  "canonical (XStr ''-1234'') = ''-0000000001234'' \<and>
   canonical (XStr ''-1234'') \<noteq> replicate (14 - length ''-1234'') CHR ''0'' @ ''-1234''"
  by code_simp

text \<open>
  C8, amended. For every raw identifier value, canonicalization coerces it to a string and
  fills it with zeros to width 14: the result has the length of the string or 14, whichever
  is larger; the characters of the string are all kept, in their order; a string of 14
  characters or more is unchanged; a string that does not begin with a sign gets the zeros
  on its left (so \<^verbatim>\<open>"1234"\<close> becomes \<^verbatim>\<open>"00000000001234"\<close>, and non-digit content is
  kept as it is); a string that begins with \<^verbatim>\<open>+\<close> or \<^verbatim>\<open>-\<close> keeps the sign first
  and gets the zeros after it.
\<close>

theorem canonical_zfill:
  "length (canonical v) = max 14 (length (py_str v)) \<and>
   subseq (py_str v) (canonical v) \<and>
   (14 \<le> length (py_str v) \<longrightarrow> canonical v = py_str v) \<and>
   (\<forall>c cs. py_str v = c # cs \<and> (c = CHR ''+'' \<or> c = CHR ''-'') \<longrightarrow>
      canonical v = c # replicate (14 - length (py_str v)) CHR ''0'' @ cs) \<and>
   (\<not> (\<exists>cs. py_str v = CHR ''+'' # cs \<or> py_str v = CHR ''-'' # cs) \<longrightarrow>
      canonical v = replicate (14 - length (py_str v)) CHR ''0'' @ py_str v) \<and>
   canonical (XStr ''1234'') = ''00000000001234''"
proof -
  have "canonical (XStr ''1234'') = ''00000000001234''"
    by code_simp
  moreover have "\<not> (\<exists>cs. py_str v = CHR ''+'' # cs \<or> py_str v = CHR ''-'' # cs) \<longrightarrow>
      canonical v = replicate (14 - length (py_str v)) CHR ''0'' @ py_str v"
    by (auto simp: canonical_def zfill_def split: list.splits)
  moreover have "\<forall>c cs. py_str v = c # cs \<and> (c = CHR ''+'' \<or> c = CHR ''-'') \<longrightarrow>
      canonical v = c # replicate (14 - length (py_str v)) CHR ''0'' @ cs"
    by (auto simp: canonical_def zfill_def split: list.splits)
  ultimately show ?thesis
    by (simp add: canonical_def zfill_length zfill_subseq) (simp add: zfill_def)
qed

theorem canonical_zfill_witness:
  "canonical (XStr ''12345678901234'') = ''12345678901234'' \<and>
   canonical (XInt (- 7)) = ''-0000000000007'' \<and>
   canonical XNaN = ''00000000000nan''"
proof -
  have a: "py_str (XStr ''12345678901234'') = ''12345678901234''" by simp
  have b: "py_str (XInt (- 7)) = ''-7''" by code_simp
  have c: "py_str XNaN = ''nan''" by simp
  have r: "replicate 12 CHR ''0'' = ''000000000000''" "replicate 11 CHR ''0'' = ''00000000000''"
    by code_simp+
  show ?thesis
    using canonical_zfill [of "XStr ''12345678901234''"] canonical_zfill [of "XInt (- 7)"]
      canonical_zfill [of XNaN]
    unfolding a b c by (simp add: r)
qed

section \<open>The remote lookup never raises\<close>

lemma fetch_try_RequestException: "fetch_try r = Inl e \<Longrightarrow> is_RequestException e"
  by (auto simp: fetch_try_def requests_get_def raise_for_status_def response_json_def
      split: http_result.splits option.splits if_splits)

lemma fetch_never_raises: "\<exists>j. fst (fetch_cnpj_data nt c) = Inr j"
  by (cases "fetch_try (nt (url_of c))")
     (auto simp: fetch_cnpj_data_def dest: fetch_try_RequestException)

text \<open>
  C2, as stated, at a response with the status 300 and a JSON body: the status is not a
  success status, yet \<^verbatim>\<open>raise_for_status\<close> lets it pass and the parsed body is returned,
  not \<^verbatim>\<open>None\<close>.
\<close>

theorem fetch_counterexample:
  "fetch_cnpj_data (always (Response 300 (Some (JObj [(''nome'', JStr ''Acme'')])))) ''00000000000191''
     = (Inr (JObj [(''nome'', JStr ''Acme'')]), []) \<and>
   fst (fetch_cnpj_data (always (Response 300 (Some (JObj [(''nome'', JStr ''Acme'')])))) ''00000000000191'')
     \<noteq> Inr JNull"
  by (simp add: fetch_cnpj_data_def fetch_try_def requests_get_def raise_for_status_def
      response_json_def always_def)

text \<open>
  C2, amended. For every identifier, \<^verbatim>\<open>fetch_cnpj_data\<close> never raises an exception to
  its caller; it returns \<^verbatim>\<open>None\<close> on any transport failure, on any status from 400 to
  599 and on a body that does not parse; on every other status, in particular on a 2xx
  status, with a body that parses it returns the parsed body.
\<close>

theorem fetch_cnpj_data_total:
  "(\<exists>j. fst (fetch_cnpj_data nt c) = Inr j) \<and>
   (nt (url_of c) = NoResponse \<longrightarrow> fst (fetch_cnpj_data nt c) = Inr JNull) \<and>
   (\<forall>status body. nt (url_of c) = Response status body \<and> 400 \<le> status \<and> status < 600 \<longrightarrow>
      fst (fetch_cnpj_data nt c) = Inr JNull) \<and>
   (\<forall>status. nt (url_of c) = Response status None \<longrightarrow> fst (fetch_cnpj_data nt c) = Inr JNull) \<and>
   (\<forall>status j. nt (url_of c) = Response status (Some j) \<and> \<not> (400 \<le> status \<and> status < 600) \<longrightarrow>
      fetch_cnpj_data nt c = (Inr j, [])) \<and>
   (\<forall>status j. nt (url_of c) = Response status (Some j) \<and> 200 \<le> status \<and> status < 300 \<longrightarrow>
      fetch_cnpj_data nt c = (Inr j, []))"
  using fetch_never_raises [of nt c]
  by (auto simp: fetch_cnpj_data_def fetch_try_def requests_get_def raise_for_status_def
      response_json_def)

theorem fetch_cnpj_data_total_witness:
  "fst (fetch_cnpj_data (always NoResponse) ''00000000000191'') = Inr JNull \<and>
   fst (fetch_cnpj_data (always (Response 404 (Some (JStr ''x'')))) ''00000000000191'') = Inr JNull \<and>
   fst (fetch_cnpj_data (always (Response 200 None)) ''00000000000191'') = Inr JNull \<and>
   fetch_cnpj_data (always (Response 200 (Some (JObj [(''nome'', JStr ''Acme'')])))) ''00000000000191''
     = (Inr (JObj [(''nome'', JStr ''Acme'')]), [])"
  using fetch_cnpj_data_total [of "always NoResponse" "''00000000000191''"]
    fetch_cnpj_data_total [of "always (Response 404 (Some (JStr ''x'')))" "''00000000000191''"]
    fetch_cnpj_data_total [of "always (Response 200 None)" "''00000000000191''"]
    fetch_cnpj_data_total [of "always (Response 200 (Some (JObj [(''nome'', JStr ''Acme'')])))" "''00000000000191''"]
  by (simp add: always_def)

section \<open>Freshness of cache entries\<close>

lemma resolve_stale_keeps:
  "\<not> truthy (cache_get (cache w) c (now_get e)) \<Longrightarrow> fst (fetch_cnpj_data (net e) c) = Inr j \<Longrightarrow>
   \<not> truthy j \<Longrightarrow> cache (fst (resolve e c w)) = cache w \<and> disk (fst (resolve e c w)) = disk w"
  by (auto simp: resolve_def Let_def split: prod.splits sum.splits)

text \<open>
  C5. \<^verbatim>\<open>CNPJCache.get\<close> returns the stored payload when an entry for the identifier
  exists and now minus its recorded-at time is strictly less than 30 days; when there is no
  entry, or the entry is 30 days old or older, it returns \<^verbatim>\<open>None\<close>. An entry recorded at
  \<open>T\<close> is returned at \<open>T\<close> plus 29 days and absent at \<open>T\<close> plus 31 days. \<^verbatim>\<open>get\<close> has no
  access to the dict but reading it; a lookup of a stale entry whose remote fetch then
  fails leaves the dict and its file as they were, stale entry included.
\<close>

theorem cache_get_freshness:
  "(\<forall>d ts. map_of c k = Some (d, ts) \<and> now - ts < timedelta_days 30 \<longrightarrow> cache_get c k now = d) \<and>
   (\<forall>d ts. map_of c k = Some (d, ts) \<and> \<not> now - ts < timedelta_days 30 \<longrightarrow> cache_get c k now = JNull) \<and>
   (map_of c k = None \<longrightarrow> cache_get c k now = JNull) \<and>
   cache_get [(k, (d0, T))] k (T + timedelta_days 29) = d0 \<and>
   cache_get [(k, (d0, T))] k (T + timedelta_days 31) = JNull \<and>
   (\<forall>d ts. map_of (cache w) k = Some (d, ts) \<and> \<not> now_get e - ts < timedelta_days 30 \<and>
      net e (url_of k) = NoResponse \<longrightarrow>
      cache (fst (resolve e k w)) = cache w \<and> disk (fst (resolve e k w)) = disk w)"
proof -
  have "cache (fst (resolve e k w)) = cache w \<and> disk (fst (resolve e k w)) = disk w"
    if "map_of (cache w) k = Some (d, ts)" "\<not> now_get e - ts < timedelta_days 30"
      "net e (url_of k) = NoResponse" for d ts
  proof (rule resolve_stale_keeps)
    show "\<not> truthy (cache_get (cache w) k (now_get e))"
      using that by (simp add: cache_get_def)
    show "fst (fetch_cnpj_data (net e) k) = Inr JNull"
      using that by (simp add: fetch_cnpj_data_def fetch_try_def requests_get_def)
    show "\<not> truthy JNull" by simp
  qed
  then show ?thesis
    by (auto simp: cache_get_def timedelta_days_def)
qed

theorem cache_get_freshness_witness:
  "cache_get [(''00000000000191'', (JStr ''Acme'', 5))] ''00000000000191'' 6 = JStr ''Acme'' \<and>
   cache_get [(''00000000000191'', (JStr ''Acme'', 0))] ''00000000000191'' (timedelta_days 30) = JNull \<and>
   cache_get [] ''00000000000191'' 6 = JNull \<and>
   cache (fst (resolve (calm_row NoResponse (timedelta_days 31)) ''00000000000191''
      (processor Missing [(''00000000000191'', (JStr ''Acme'', 0))]))) =
     [(''00000000000191'', (JStr ''Acme'', 0))]"
  using cache_get_freshness [of "[(''00000000000191'', (JStr ''Acme'', 5))]" "''00000000000191''" 6]
    cache_get_freshness [of "[(''00000000000191'', (JStr ''Acme'', 0))]" "''00000000000191''"
      "timedelta_days 30" _ _ "processor Missing [(''00000000000191'', (JStr ''Acme'', 0))]"
      "calm_row NoResponse (timedelta_days 31)"]
    cache_get_freshness [of "[]" "''00000000000191''" 6]
  by (simp add: timedelta_days_def calm_row_sel processor_sel always_def)

section \<open>What a pass of the loop leaves alone\<close>

lemma upt_shift: "[i ..< i + Suc k] = i # [Suc i ..< Suc i + k]"
  using upt_conv_Cons [of i "i + Suc k"] by (simp del: upt_Suc)

lemma cache_set_frame:
  "cache_set e c d w = (w1, r) \<Longrightarrow>
     saved w1 = saved w \<and> signals w1 = signals w \<and> df w1 = df w \<and> cnpj w1 = cnpj w"
  by (auto simp: cache_set_def Let_def split: if_splits)

lemma resolve_frame:
  "resolve e c w = (w1, r) \<Longrightarrow>
     saved w1 = saved w \<and> signals w1 = signals w \<and> df w1 = df w \<and> cnpj w1 = cnpj w"
  by (auto simp: resolve_def Let_def split: if_splits prod.splits sum.splits option.splits
      dest!: cache_set_frame)

lemma apply_payload_frame:
  "apply_payload fs i c d w = (w1, r) \<Longrightarrow>
     saved w1 = saved w \<and> signals w1 = signals w \<and> cnpj w1 = cnpj w"
  by (auto simp: apply_payload_def split: if_splits prod.splits option.splits)

lemma row_try_frame:
  "row_try e fs cols i row w = (w1, r) \<Longrightarrow> saved w1 = saved w \<and> signals w1 = signals w"
  by (auto simp: row_try_def Let_def split: option.splits prod.splits sum.splits
      dest!: resolve_frame apply_payload_frame)

lemma process_row_Inr:
  "process_row e fs cols n i row w = Inr w1 \<Longrightarrow>
     0 < n \<and> saved w1 = saved w \<and> signals w1 = signals w @ [progress_updated (percent i n)]"
  by (auto simp: process_row_def emit_progress_def split: prod.splits option.splits if_splits
      dest!: row_try_frame)


lemma iterrows_Inr:
  "iterrows es fs cols n i rs w = Inr w1 \<Longrightarrow>
     saved w1 = saved w \<and>
     signals w1 = signals w @ map (\<lambda>j. progress_updated (percent j n)) [i ..< i + length rs]"
proof (induction rs arbitrary: i w)
  case Nil
  then show ?case by simp
next
  case (Cons row rest)
  then obtain w2 where a: "process_row (es i) fs cols n i row w = Inr w2"
    and b: "iterrows es fs cols n (Suc i) rest w2 = Inr w1"
    by (auto split: sum.splits)
  have "[i ..< i + length (row # rest)] = i # [Suc i ..< Suc i + length rest]"
    using upt_shift [of i "length rest"] by simp
  with Cons.IH [OF b] process_row_Inr [OF a] show ?case
    by simp
qed


section \<open>A cache that starts empty\<close>



section \<open>A dataset without the identifier column\<close>

lemma no_identifier_column:
  assumes "''CNPJ'' \<notin> set cols" and "cnpj w = None"
  shows "iterrows es fs cols n i (row # rest) w = Inl (w, UnboundLocalError ''cnpj'')"
proof -
  have "map_of (zip cols row) ''CNPJ'' = None"
    using assms(1) by (auto simp: map_of_eq_None_iff dest: set_zip_leftD)
  with assms(2) show ?thesis
    by (simp add: process_row_def row_try_def)
qed

text \<open>
  C3, at a dataset of one row that has no column \<^verbatim>\<open>CNPJ\<close>: reading the identifier raises
  \<^verbatim>\<open>KeyError\<close>; the handler of the row then formats the variable \<^verbatim>\<open>cnpj\<close>, which has
  never been assigned, and raises \<^verbatim>\<open>UnboundLocalError\<close>; the run is aborted with the
  failure signal, and no progress signal is emitted.
\<close>

theorem missing_identifier_column_aborts:
  "signals (run (calm \<lparr>columns = [''nome''], rows = [[XStr ''Acme'']]\<rparr> NoResponse 0)
      ''in.xlsx'' [''nome''] (processor Missing []))
   = [error_occurred (UnboundLocalError ''cnpj'')]"
  by (simp add: run_def run_try_def calm_def always_def processor_def process_row_def
      row_try_def)

section \<open>Runs that reach the end\<close>

lemma row_try_binds:
  "row_try e fs cols i row w = (w1, r) \<Longrightarrow> map_of (zip cols row) ''CNPJ'' \<noteq> None \<Longrightarrow>
   cnpj w1 \<noteq> None"
  by (auto simp: row_try_def Let_def split: option.splits prod.splits sum.splits
      dest!: resolve_frame apply_payload_frame)

lemma process_row_completes:
  assumes "0 < n" and "map_of (zip cols row) ''CNPJ'' \<noteq> None"
  shows "\<exists>w1. process_row e fs cols n i row w = Inr w1"
proof (cases "row_try e fs cols i row w")
  case (Pair w1 r)
  from row_try_binds [OF Pair assms(2)] obtain c where "cnpj w1 = Some c" by auto
  with Pair assms(1) show ?thesis
    by (cases r) (auto simp: process_row_def emit_progress_def)
qed

lemma identifier_read:
  "''CNPJ'' \<in> set cols \<Longrightarrow> length row = length cols \<Longrightarrow> map_of (zip cols row) ''CNPJ'' \<noteq> None"
  by (simp add: map_of_zip_is_None [symmetric])

lemma iterrows_completes:
  assumes "0 < n" and "''CNPJ'' \<in> set cols" and "\<forall>row \<in> set rs. length row = length cols"
  shows "\<exists>w1. iterrows es fs cols n i rs w = Inr w1"
  using assms(3)
proof (induction rs arbitrary: i w)
  case Nil
  show ?case by simp
next
  case (Cons row rest)
  then have "map_of (zip cols row) ''CNPJ'' \<noteq> None"
    using assms(2) by (intro identifier_read) simp_all
  from process_row_completes [OF assms(1) this]
  obtain w2 where "process_row (es i) fs cols n i row w = Inr w2" by blast
  moreover from Cons obtain w1 where "iterrows es fs cols n (Suc i) rest w2 = Inr w1"
    by fastforce
  ultimately show ?case by simp
qed

lemma run_try_completes:
  assumes "read_excel E p = Inr x" and "''CNPJ'' \<in> set (columns x) \<or> rows x = []"
    and "rectangular x" and "to_excel_ok E"
  shows "\<exists>w0 w1. iterrows (at_row E) fs (columns x) (length (rows x)) 0 (rows x)
            (w\<lparr>df := read_frame x\<rparr>) = Inr w0 \<and>
          write_output E p w0 = Inr w1 \<and> run_try E p fs w = Inr w1 \<and> run E p fs w = w1"
proof -
  have "\<exists>w0. iterrows (at_row E) fs (columns x) (length (rows x)) 0 (rows x)
            (w\<lparr>df := read_frame x\<rparr>) = Inr w0"
  proof (cases "rows x")
    case Nil
    then show ?thesis by simp
  next
    case (Cons r rs)
    with assms(2,3) show ?thesis
      by (intro iterrows_completes) (auto simp: rectangular_def)
  qed
  then obtain w0 where "iterrows (at_row E) fs (columns x) (length (rows x)) 0 (rows x)
            (w\<lparr>df := read_frame x\<rparr>) = Inr w0" ..
  with assms(1,4) show ?thesis
    by (simp add: run_def run_try_def write_output_def)
qed

section \<open>The output path\<close>

lemma replace_str_old:
  "old \<noteq> [] \<Longrightarrow> replace_str old new (old @ s) = new @ replace_str old new s"
  by (subst replace_str.simps) simp

lemma replace_str_Cons:
  "old \<noteq> [] \<Longrightarrow> \<not> prefix old (c # s) \<Longrightarrow> replace_str old new (c # s) = c # replace_str old new s"
  by (subst replace_str.simps) simp

lemma replace_str_Nil: "old \<noteq> [] \<Longrightarrow> replace_str old new [] = []"
  by (subst replace_str.simps) simp

lemma xlsx_no_overlap:
  assumes "prefix ''.xlsx'' (c # cs @ ''.xlsx'')"
  shows "prefix ''.xlsx'' (c # cs)"
proof (cases cs)
  case Nil
  with assms show ?thesis by simp
next
  case c1: (Cons a cs1)
  show ?thesis
  proof (cases cs1)
    case Nil
    with assms c1 show ?thesis by simp
  next
    case c2: (Cons b cs2)
    show ?thesis
    proof (cases cs2)
      case Nil
      with assms c1 c2 show ?thesis by simp
    next
      case c3: (Cons d cs3)
      show ?thesis
      proof (cases cs3)
        case Nil
        with assms c1 c2 c3 show ?thesis by simp
      next
        case (Cons e cs4)
        with assms c1 c2 c3 show ?thesis by auto
      qed
    qed
  qed
qed

lemma replace_xlsx_suffix:
  "\<not> sublist ''.xlsx'' base \<Longrightarrow> replace_str ''.xlsx'' new (base @ ''.xlsx'') = base @ new"
proof (induction base)
  case Nil
  show ?case using replace_str_old [of "''.xlsx''" new "[]"]
    by (simp add: replace_str_Nil)
next
  case (Cons c cs)
  then have a: "\<not> prefix ''.xlsx'' (c # cs)" and b: "\<not> sublist ''.xlsx'' cs"
    by (auto simp: sublist_Cons_right)
  from a xlsx_no_overlap [of c cs] have "replace_str ''.xlsx'' new (c # cs @ ''.xlsx'') =
      c # replace_str ''.xlsx'' new (cs @ ''.xlsx'')"
    by (intro replace_str_Cons) auto
  with Cons.IH [OF b] show ?case by simp
qed

text \<open>
  C7, as stated, at an input path whose directory name contains \<^verbatim>\<open>.xlsx\<close>: every
  occurrence is replaced, so the output is not written beside the input.
\<close>

theorem output_file_counterexample:
  "output_file ''/a.xlsx.d/b.xlsx'' = ''/a_atualizado.xlsx.d/b_atualizado.xlsx'' \<and>
   output_file ''/a.xlsx.d/b.xlsx'' \<noteq> ''/a.xlsx.d/b_atualizado.xlsx''"
  by code_simp

text \<open>
  C7, amended. For every input path that ends in \<^verbatim>\<open>.xlsx\<close> and contains \<^verbatim>\<open>.xlsx\<close>
  nowhere before that ending, the output path is the input path with the ending replaced
  by \<^verbatim>\<open>_atualizado.xlsx\<close>; a run that reads a dataset with the identifier column (or
  with no rows) and can write its output writes the frame to that path, logs the path in
  its last log line, and ends with the completion signal. The signal
  \<^verbatim>\<open>process_finished\<close> is declared without arguments: it carries no path.
\<close>

theorem output_path:
  assumes "\<not> sublist ''.xlsx'' base"
    and "read_excel E (base @ ''.xlsx'') = Inr x"
    and "''CNPJ'' \<in> set (columns x) \<or> rows x = []"
    and "rectangular x" and "to_excel_ok E"
  shows "output_file (base @ ''.xlsx'') = base @ ''_atualizado.xlsx'' \<and>
    saved (run E (base @ ''.xlsx'') fs w) =
      saved w @ [(base @ ''_atualizado.xlsx'', df (run E (base @ ''.xlsx'') fs w))] \<and>
    last (logged (run E (base @ ''.xlsx'') fs w)) = Info_saved (base @ ''_atualizado.xlsx'') \<and>
    last (signals (run E (base @ ''.xlsx'') fs w)) = process_finished"
proof -
  have p: "output_file (base @ ''.xlsx'') = base @ ''_atualizado.xlsx''"
    unfolding output_file_def by (rule replace_xlsx_suffix [OF assms(1)])
  from run_try_completes [OF assms(2-5), of fs w] obtain w0 w1
    where a: "iterrows (at_row E) fs (columns x) (length (rows x)) 0 (rows x)
            (w\<lparr>df := read_frame x\<rparr>) = Inr w0"
      and b: "write_output E (base @ ''.xlsx'') w0 = Inr w1"
      and c: "run E (base @ ''.xlsx'') fs w = w1" by blast
  from iterrows_Inr [OF a] have "saved w0 = saved w" by simp
  with b assms(5) p show ?thesis
    unfolding c by (auto simp: write_output_def)
qed

theorem output_path_witness:
  "saved (run (calm \<lparr>columns = [''CNPJ''], rows = [[XInt 191]]\<rparr> NoResponse 0) ''/data/in.xlsx''
       [''nome''] (processor Missing [])) =
     [(''/data/in_atualizado.xlsx'',
       df (run (calm \<lparr>columns = [''CNPJ''], rows = [[XInt 191]]\<rparr> NoResponse 0) ''/data/in.xlsx''
         [''nome''] (processor Missing [])))]"
proof -
  have "\<not> sublist ''.xlsx'' ''/data/in''"
    by code_simp
  from output_path [OF this, of "calm \<lparr>columns = [''CNPJ''], rows = [[XInt 191]]\<rparr> NoResponse 0"
      "\<lparr>columns = [''CNPJ''], rows = [[XInt 191]]\<rparr>" "[''nome'']" "processor Missing []"]
  show ?thesis
    by (simp add: calm_def always_def rectangular_def processor_def)
qed

section \<open>A dataset without rows\<close>

text \<open>
  C10. For a dataset with zero rows the loop body never runs, so the division by the
  number of rows is not executed and the run does not end with \<^verbatim>\<open>ZeroDivisionError\<close>;
  when the output can be written, no progress signal is emitted, the (unchanged) frame is
  written to the output path, and the only signal is one completion signal.
\<close>

theorem zero_rows:
  assumes "read_excel E p = Inr x" and "rows x = []"
  shows "(\<forall>w1. run_try E p fs w \<noteq> Inl (w1, ZeroDivisionError)) \<and>
    (to_excel_ok E \<longrightarrow>
       signals (run E p fs w) = signals w @ [process_finished] \<and>
       saved (run E p fs w) = saved w @ [(output_file p, read_frame x)])"
  using assms by (simp add: run_def run_try_def write_output_def)

theorem zero_rows_witness:
  "signals (run (calm \<lparr>columns = [''CNPJ'', ''nome''], rows = []\<rparr> NoResponse 0) ''in.xlsx''
      [''nome''] (processor Missing [])) = [process_finished] \<and>
   saved (run (calm \<lparr>columns = [''CNPJ'', ''nome''], rows = []\<rparr> NoResponse 0) ''in.xlsx''
      [''nome''] (processor Missing [])) =
     [(output_file ''in.xlsx'', read_frame \<lparr>columns = [''CNPJ'', ''nome''], rows = []\<rparr>)]"
  using zero_rows [of "calm \<lparr>columns = [''CNPJ'', ''nome''], rows = []\<rparr> NoResponse 0" "''in.xlsx''"
      "\<lparr>columns = [''CNPJ'', ''nome''], rows = []\<rparr>" "[''nome'']" "processor Missing []"]
  by (simp add: calm_def always_def processor_def)

section \<open>The columns of the dataset\<close>









lemma selection_within_columns:
  assumes "map fst field_checkboxes = map fst (load_fields x)"
    and "start_processing field_checkboxes = Some selected_fields"
  shows "selected_fields \<noteq> [] \<and> set selected_fields \<subseteq> set (columns x)"
proof -
  from assms(2) have s: "selected_fields = map fst (filter snd field_checkboxes)"
    and n: "selected_fields \<noteq> []"
    by (auto simp: start_processing_def Let_def split: if_splits)
  have "set (map fst (filter snd field_checkboxes)) \<subseteq> set (map fst field_checkboxes)"
    by auto
  also have "map fst field_checkboxes = columns x"
    using assms(1) by (simp add: load_fields_def comp_def)
  finally show ?thesis using s n by simp
qed



section \<open>Cache first, network second\<close>

text \<open>
  C4, as stated, at a cache that holds a fresh entry whose payload is the empty object:
  \<^verbatim>\<open>CNPJCache.get\<close> returns that payload, not \<^verbatim>\<open>None\<close>, and the remote lookup is
  invoked all the same, because line 61 tests the truth value of the payload.
\<close>

theorem fetch_on_empty_payload_counterexample:
  "cache_get (cache (processor Missing [(''00000000000191'', (JObj [], 0))])) ''00000000000191''
      (now_get (calm_row NoResponse 5)) = JObj [] \<and>
   requested (fst (resolve (calm_row NoResponse 5) ''00000000000191''
      (processor Missing [(''00000000000191'', (JObj [], 0))]))) = [url_of ''00000000000191'']"
  by (simp add: cache_get_def calm_row_def processor_def timedelta_days_def resolve_def
      fetch_cnpj_data_def fetch_try_def requests_get_def always_def)

lemma resolve_hit:
  "truthy (cache_get (cache w) c (now_get e)) \<Longrightarrow>
   resolve e c w = (w, Inr (cache_get (cache w) c (now_get e)))"
  by (simp add: resolve_def)

lemma resolve_miss_requests:
  "\<not> truthy (cache_get (cache w) c (now_get e)) \<Longrightarrow>
   requested (fst (resolve e c w)) = requested w @ [url_of c]"
  by (auto simp: resolve_def cache_set_def Let_def split: prod.splits sum.splits if_splits)

lemma resolve_miss_stores:
  "\<not> truthy (cache_get (cache w) c (now_get e)) \<Longrightarrow> fst (fetch_cnpj_data (net e) c) = Inr d \<Longrightarrow>
   truthy d \<Longrightarrow>
   cache (fst (resolve e c w)) = AList.update c (d, now_set e) (cache w) \<and>
   (save_ok e \<longrightarrow> snd (resolve e c w) = Inr d \<and>
      disk (fst (resolve e c w)) = Snapshot (AList.update c (d, now_set e) (cache w)))"
  by (auto simp: resolve_def cache_set_def Let_def split: prod.splits sum.splits if_splits)

lemma resolve_miss_absent:
  "\<not> truthy (cache_get (cache w) c (now_get e)) \<Longrightarrow> fst (fetch_cnpj_data (net e) c) = Inr d \<Longrightarrow>
   \<not> truthy d \<Longrightarrow>
   resolve e c w =
     (w\<lparr>logged := logged w @ snd (fetch_cnpj_data (net e) c),
        requested := requested w @ [url_of c]\<rparr>, Inr d)"
  by (auto simp: resolve_def Let_def split: prod.splits sum.splits)

lemma row_try_absent:
  assumes "map_of (zip cols row) ''CNPJ'' = Some v"
    and "map_of (cache w) (canonical v) = None"
    and "fst (fetch_cnpj_data (net e) (canonical v)) = Inr JNull"
  shows "df (fst (row_try e fs cols i row w)) = df w \<and>
    cache (fst (row_try e fs cols i row w)) = cache w \<and>
    disk (fst (row_try e fs cols i row w)) = disk w \<and>
    snd (row_try e fs cols i row w) = None"
proof -
  let ?w = "w\<lparr>cnpj := Some (canonical v)\<rparr>"
  have "\<not> truthy (cache_get (cache ?w) (canonical v) (now_get e))"
    using assms(2) by (simp add: cache_get_def)
  from resolve_miss_absent [OF this, of JNull] assms(3)
  have "resolve e (canonical v) ?w =
     (?w\<lparr>logged := logged ?w @ snd (fetch_cnpj_data (net e) (canonical v)),
        requested := requested ?w @ [url_of (canonical v)]\<rparr>, Inr JNull)"
    by simp
  with assms(1) show ?thesis
    by (simp add: row_try_def apply_payload_def Let_def)
qed

text \<open>
  C4, amended. For every row the payload is resolved as \<^verbatim>\<open>CNPJCache.get(identifier)\<close>;
  \<^verbatim>\<open>fetch_cnpj_data(identifier)\<close> is invoked, once, exactly when that value is false in
  the sense of Python (\<^verbatim>\<open>None\<close>, or an empty or zero payload), and not at all otherwise;
  when the fetch returns a payload that is true in that sense, the payload is stored
  through \<^verbatim>\<open>CNPJCache.set\<close> with the time of the call; when it returns a false one, the
  dict and its file stay as they were; and when it returns \<^verbatim>\<open>None\<close> for an identifier
  that is not in the cache, the row is left unmodified and no cache entry is created.
\<close>

theorem cache_then_fetch:
  "(truthy (cache_get (cache w) c (now_get e)) \<longrightarrow>
      resolve e c w = (w, Inr (cache_get (cache w) c (now_get e)))) \<and>
   (\<not> truthy (cache_get (cache w) c (now_get e)) \<longrightarrow>
      requested (fst (resolve e c w)) = requested w @ [url_of c]) \<and>
   (\<forall>d. \<not> truthy (cache_get (cache w) c (now_get e)) \<and>
        fst (fetch_cnpj_data (net e) c) = Inr d \<and> truthy d \<longrightarrow>
      cache (fst (resolve e c w)) = AList.update c (d, now_set e) (cache w) \<and>
      map_of (cache (fst (resolve e c w))) c = Some (d, now_set e) \<and>
      (save_ok e \<longrightarrow> snd (resolve e c w) = Inr d \<and>
         disk (fst (resolve e c w)) = Snapshot (cache (fst (resolve e c w))))) \<and>
   (\<forall>d. \<not> truthy (cache_get (cache w) c (now_get e)) \<and>
        fst (fetch_cnpj_data (net e) c) = Inr d \<and> \<not> truthy d \<longrightarrow>
      snd (resolve e c w) = Inr d \<and> cache (fst (resolve e c w)) = cache w \<and>
      disk (fst (resolve e c w)) = disk w) \<and>
   (\<forall>v. map_of (zip cols row) ''CNPJ'' = Some v \<and> c = canonical v \<and>
        map_of (cache w) c = None \<and> fst (fetch_cnpj_data (net e) c) = Inr JNull \<longrightarrow>
      df (fst (row_try e fs cols i row w)) = df w \<and>
      cache (fst (row_try e fs cols i row w)) = cache w \<and>
      map_of (cache (fst (row_try e fs cols i row w))) c = None)"
proof -
  have a: "\<forall>d. \<not> truthy (cache_get (cache w) c (now_get e)) \<and>
        fst (fetch_cnpj_data (net e) c) = Inr d \<and> truthy d \<longrightarrow>
      cache (fst (resolve e c w)) = AList.update c (d, now_set e) (cache w) \<and>
      map_of (cache (fst (resolve e c w))) c = Some (d, now_set e) \<and>
      (save_ok e \<longrightarrow> snd (resolve e c w) = Inr d \<and>
         disk (fst (resolve e c w)) = Snapshot (cache (fst (resolve e c w))))"
    using resolve_miss_stores [of w c e] by (auto simp: update_conv')
  have b: "\<forall>d. \<not> truthy (cache_get (cache w) c (now_get e)) \<and>
        fst (fetch_cnpj_data (net e) c) = Inr d \<and> \<not> truthy d \<longrightarrow>
      snd (resolve e c w) = Inr d \<and> cache (fst (resolve e c w)) = cache w \<and>
      disk (fst (resolve e c w)) = disk w"
    using resolve_miss_absent [of w c e] by auto
  have c: "\<forall>v. map_of (zip cols row) ''CNPJ'' = Some v \<and> c = canonical v \<and>
        map_of (cache w) c = None \<and> fst (fetch_cnpj_data (net e) c) = Inr JNull \<longrightarrow>
      df (fst (row_try e fs cols i row w)) = df w \<and>
      cache (fst (row_try e fs cols i row w)) = cache w \<and>
      map_of (cache (fst (row_try e fs cols i row w))) c = None"
    using row_try_absent [of cols row _ w e fs i] by auto
  from a b c show ?thesis
    using resolve_hit [of w c e] resolve_miss_requests [of w c e] by blast
qed

theorem cache_then_fetch_witness:
  "resolve (calm_row NoResponse 5) ''00000000000191''
      (processor Missing [(''00000000000191'', (JStr ''Acme'', 0))]) =
     (processor Missing [(''00000000000191'', (JStr ''Acme'', 0))], Inr (JStr ''Acme'')) \<and>
   requested (fst (resolve (calm_row NoResponse 5) ''00000000000191'' (processor Missing []))) =
     [url_of ''00000000000191''] \<and>
   cache (fst (resolve (calm_row (Response 200 (Some (JStr ''Acme''))) 5) ''00000000000191''
      (processor Missing []))) = [(''00000000000191'', (JStr ''Acme'', 5))] \<and>
   cache (fst (resolve (calm_row NoResponse 5) ''00000000000191'' (processor Missing []))) = [] \<and>
   df (fst (row_try (calm_row NoResponse 5) [''nome''] [''CNPJ'', ''nome''] 0
      [XStr ''00000000000191'', XNaN] (processor Missing []))) = df (processor Missing [])"
proof -
  have f1: "fst (fetch_cnpj_data (always NoResponse) ''00000000000191'') = Inr JNull"
    by (simp add: fetch_cnpj_data_def fetch_try_def requests_get_def calm_row_sel always_def)
  have f2: "fst (fetch_cnpj_data (always (Response 200 (Some (JStr ''Acme''))))
      ''00000000000191'') = Inr (JStr ''Acme'')"
    by (simp add: fetch_cnpj_data_def fetch_try_def requests_get_def raise_for_status_def
        response_json_def calm_row_sel always_def)
  have c: "canonical (XStr ''00000000000191'') = ''00000000000191''"
    by (simp add: canonical_def zfill_def)
  show ?thesis
    using cache_then_fetch [of "processor Missing [(''00000000000191'', (JStr ''Acme'', 0))]"
        "''00000000000191''" "calm_row NoResponse 5"]
      cache_then_fetch [of "processor Missing []" "''00000000000191''" "calm_row NoResponse 5"
        "[''CNPJ'', ''nome'']" "[XStr ''00000000000191'', XNaN]" "[''nome'']" 0]
      cache_then_fetch [of "processor Missing []" "''00000000000191''"
        "calm_row (Response 200 (Some (JStr ''Acme''))) 5"]
    by (simp add: f1 f2 c cache_get_def timedelta_days_def calm_row_sel processor_sel)
qed

section \<open>Rounding to a double is monotone\<close>

















section \<open>The signals of a run\<close>




end
